theory Spec2Isabelle
  imports Complex_Main "HOL-Library.AList" "HOL-Library.Sublist"
begin

section \<open>The reproduction script \<open>reproduce/ilharco2023editing.py\<close>\<close>

text \<open>
  The script is a straight line of calls to external collaborators (the \<open>transformers\<close>
  pipeline constructor, \<open>mergecraft.task\<close>, \<open>save_pretrained\<close>,
  \<open>evaluate_glue_pipeline\<close>, \<open>time.time\<close>, \<open>open\<close> and \<open>json.dump\<close>).
  The collaborators are parameters of the model: each one takes the state of the outside
  world and returns either an exception or a value, together with the world it leaves
  behind. The script's own work (the model lists, the paths, the record) is modelled as
  it is written. The imports of lines 1 to 3 have succeeded when line 6 is reached.
\<close>

subsection \<open>Values and dictionaries\<close>

text \<open>
  Python values that reach the record: strings, numbers (\<open>'n\<close> stands for Python's
  floats) and dictionaries. A dictionary is an association list in insertion order.
\<close>

datatype 'n pyval = PStr string | PNum 'n | PDict "(string \<times> 'n pyval) list"

type_synonym 'n pydict = "(string \<times> 'n pyval) list"

text \<open>An uncaught Python exception, named by its message.\<close>

type_synonym exn = string

text \<open>
  \<open>{... , **m}\<close>: the items of \<open>m\<close> are stored one by one, in order, into the
  dictionary built so far. Storing under a key that is present replaces the value in
  place; a new key goes to the end (\<open>AList.update\<close>).
\<close>

definition spread :: "'n pydict \<Rightarrow> 'n pydict \<Rightarrow> 'n pydict" where
  "spread d m = fold (\<lambda>(k, v). AList.update k v) m d"

text \<open>A value that is not itself a dictionary.\<close>

fun scalar :: "'n pyval \<Rightarrow> bool" where
  "scalar (PDict m) = False"
| "scalar _ = True"

subsection \<open>Lines 10 to 13: the model list\<close>

definition models :: "string \<Rightarrow> string list" where
  "models DATASET =
     (if DATASET = ''rte'' then
        [''google-bert/bert-base-uncased'', ''textattack/bert-base-uncased-RTE'',
         ''yoshitomo-matsubara/bert-base-uncased-rte'',
         ''Ruizhou/bert-base-uncased-finetuned-rte'', ''howey/bert-base-uncased-rte'',
         ''anirudh21/bert-base-uncased-finetuned-rte'']
      else
        [''google-bert/bert-base-uncased'', ''aviator-neural/bert-base-uncased-sst2'',
         ''howey/bert-base-uncased-sst2'', ''yoshitomo-matsubara/bert-base-uncased-sst2'',
         ''ikevin98/bert-base-uncased-finetuned-sst2'',
         ''TehranNLP-org/bert-base-uncased-cls-sst2''])"

subsection \<open>Lines 30 to 37: the record\<close>

definition record_dict :: "string \<Rightarrow> string \<Rightarrow> 'n \<Rightarrow> 'n pydict \<Rightarrow> 'n pydict" where
  "record_dict DATASET SPLIT dt acc =
     spread
       [(''method'', PStr ''task''),
        (''dataset'', PStr DATASET),
        (''split'', PStr SPLIT),
        (''directory'', PStr (''./artifacts/merged_weights_task_'' @ DATASET @ ''_'' @ SPLIT)),
        (''time'', PNum dt)]
       acc"

subsection \<open>The collaborators and the trace of a run\<close>

text \<open>
  \<open>'w\<close> is the outside world (file system, network, model cache, clock), \<open>'p\<close> a
  pipeline object, \<open>'r\<close> an evaluation result. \<open>accuracy\<close> reads the attribute
  \<open>res.accuracy\<close>. \<open>import_evaluate\<close> stands for line 25,
  \<open>from mergecraft import evaluate_glue_pipeline\<close>, which runs after the weights are
  saved and can raise like any other call. \<open>json_dump\<close> stands for
  \<open>json.dump(record, fp)\<close> and the closing of \<open>fp\<close> at the end of the \<open>with\<close>
  block. The three \<open>print\<close> calls and \<open>time.time\<close> are taken not to raise.
\<close>

record ('w, 'p, 'n, 'r) env =
  pipeline :: "string \<Rightarrow> string \<Rightarrow> string \<Rightarrow> string \<Rightarrow> 'w \<Rightarrow> (exn + 'p) \<times> 'w"
  time_time :: "'w \<Rightarrow> 'n"
  task :: "string list \<Rightarrow> nat \<Rightarrow> int list option \<Rightarrow> string \<Rightarrow> 'w \<Rightarrow> (exn + 'p) \<times> 'w"
  save_pretrained :: "'p \<Rightarrow> string \<Rightarrow> 'w \<Rightarrow> (exn + unit) \<times> 'w"
  import_evaluate :: "'w \<Rightarrow> (exn + unit) \<times> 'w"
  evaluate_glue_pipeline :: "'p \<Rightarrow> string \<Rightarrow> 'w \<Rightarrow> (exn + 'r) \<times> 'w"
  accuracy :: "'r \<Rightarrow> 'n pydict"
  open_file :: "string \<Rightarrow> string \<Rightarrow> 'w \<Rightarrow> (exn + unit) \<times> 'w"
  json_dump :: "'n pydict \<Rightarrow> string \<Rightarrow> 'w \<Rightarrow> (exn + unit) \<times> 'w"

text \<open>
  Every call the script makes is logged with its arguments (\<open>TimeCall\<close>, which has none,
  with the reading it returned) and with its outcome: \<open>None\<close> when it returned,
  \<open>Some e\<close> when it raised \<open>e\<close>.
\<close>

datatype ('p, 'n, 'r) event =
    PipelineCall string string string string
  | TimeCall 'n
  | TaskCall "string list" nat "int list option" string
  | PrintElapsed string 'n
  | PrintMsg string
  | PrintRes 'r
  | SavePretrained 'p string
  | ImportEvaluate
  | EvaluateCall 'p string
  | OpenCall string string
  | JsonDump "'n pydict" string

record ('w, 'p, 'n, 'r) run_state =
  world :: 'w
  trace :: "(('p, 'n, 'r) event \<times> exn option) list"

type_synonym ('w, 'p, 'n, 'r) outcome = "(exn + unit) \<times> ('w, 'p, 'n, 'r) run_state"

text \<open>A call that may raise: an exception ends the run, a value goes to the rest of the script.\<close>

definition invoke ::
  "('p, 'n, 'r) event \<Rightarrow> ('w \<Rightarrow> (exn + 'a) \<times> 'w) \<Rightarrow>
   ('a \<Rightarrow> ('w, 'p, 'n, 'r) run_state \<Rightarrow> ('w, 'p, 'n, 'r) outcome) \<Rightarrow>
   ('w, 'p, 'n, 'r) run_state \<Rightarrow> ('w, 'p, 'n, 'r) outcome" where
  "invoke ev f k s =
     (case f (world s) of
        (Inl e, w') \<Rightarrow> (Inl e, \<lparr>world = w', trace = trace s @ [(ev, Some e)]\<rparr>)
      | (Inr a, w') \<Rightarrow> k a \<lparr>world = w', trace = trace s @ [(ev, None)]\<rparr>)"

text \<open>\<open>print\<close>: output only.\<close>

definition emit ::
  "('p, 'n, 'r) event \<Rightarrow> (('w, 'p, 'n, 'r) run_state \<Rightarrow> ('w, 'p, 'n, 'r) outcome) \<Rightarrow>
   ('w, 'p, 'n, 'r) run_state \<Rightarrow> ('w, 'p, 'n, 'r) outcome" where
  "emit ev k s = k \<lparr>world = world s, trace = trace s @ [(ev, None)]\<rparr>"

text \<open>\<open>time.time()\<close>: reads the clock of the world and leaves the world as it is.\<close>

definition read_clock ::
  "('w, 'p, 'n, 'r) env \<Rightarrow> ('n \<Rightarrow> ('w, 'p, 'n, 'r) run_state \<Rightarrow> ('w, 'p, 'n, 'r) outcome) \<Rightarrow>
   ('w, 'p, 'n, 'r) run_state \<Rightarrow> ('w, 'p, 'n, 'r) outcome" where
  "read_clock E k s =
     k (time_time E (world s))
       \<lparr>world = world s, trace = trace s @ [(TimeCall (time_time E (world s)), None)]\<rparr>"

definition finish :: "('w, 'p, 'n, 'r) run_state \<Rightarrow> ('w, 'p, 'n, 'r) outcome" where
  "finish s = (Inr (), s)"

subsection \<open>Lines 17 to 39: from the merge to the record\<close>

definition merge_and_record ::
  "('w, 'p, 'n::minus, 'r) env \<Rightarrow> string \<Rightarrow> string \<Rightarrow> string list \<Rightarrow>
   ('w, 'p, 'n, 'r) run_state \<Rightarrow> ('w, 'p, 'n, 'r) outcome" where
  "merge_and_record E DATASET SPLIT ms =
     read_clock E (\<lambda>t0.
     invoke (TaskCall ms 0 None ''text-classification'')
            (task E ms 0 None ''text-classification'') (\<lambda>pipe.
     read_clock E (\<lambda>t1.
     emit (PrintElapsed ''Merging completed. Time elapsed:'' (t1 - t0)) (
     invoke (SavePretrained pipe (''./artifacts/merged_weights_task_'' @ DATASET @ ''_'' @ SPLIT))
            (save_pretrained E pipe (''./artifacts/merged_weights_task_'' @ DATASET @ ''_'' @ SPLIT))
            (\<lambda>_.
     emit (PrintMsg ''Evaluating the merged model'') (
     invoke ImportEvaluate (import_evaluate E) (\<lambda>_.
     invoke (EvaluateCall pipe DATASET) (evaluate_glue_pipeline E pipe DATASET) (\<lambda>res.
     emit (PrintRes res) (
     invoke (OpenCall (''./artifacts/merged_weights_task_'' @ DATASET @ ''_'' @ SPLIT
                        @ ''/record.json'') ''w'')
            (open_file E (''./artifacts/merged_weights_task_'' @ DATASET @ ''_'' @ SPLIT
                          @ ''/record.json'') ''w'') (\<lambda>_.
     invoke (JsonDump (record_dict DATASET SPLIT (t1 - t0) (accuracy E res))
                      (''./artifacts/merged_weights_task_'' @ DATASET @ ''_'' @ SPLIT
                        @ ''/record.json''))
            (json_dump E (record_dict DATASET SPLIT (t1 - t0) (accuracy E res))
                         (''./artifacts/merged_weights_task_'' @ DATASET @ ''_'' @ SPLIT
                           @ ''/record.json''))
            (\<lambda>_. finish)))))))))))"

subsection \<open>The whole script\<close>

text \<open>
  Line 15 reads \<open>models[0]\<close>, which raises \<open>IndexError\<close> on an empty list, and binds
  \<open>pipe\<close>; line 18 binds \<open>pipe\<close> again.
\<close>

definition ilharco2023editing ::
  "('w, 'p, 'n::minus, 'r) env \<Rightarrow> string \<Rightarrow> string \<Rightarrow>
   ('w, 'p, 'n, 'r) run_state \<Rightarrow> ('w, 'p, 'n, 'r) outcome" where
  "ilharco2023editing E DATASET SPLIT s =
     (case models DATASET of
        [] \<Rightarrow> (Inl ''IndexError'', s)
      | m0 # _ \<Rightarrow>
          invoke (PipelineCall ''text-classification'' m0 ''cpu'' ''pt'')
                 (pipeline E ''text-classification'' m0 ''cpu'' ''pt'')
                 (\<lambda>pipe. merge_and_record E DATASET SPLIT (models DATASET)) s)"

text \<open>A run starts with an empty trace.\<close>

definition start :: "'w \<Rightarrow> ('w, 'p, 'n, 'r) run_state" where
  "start w = \<lparr>world = w, trace = []\<rparr>"

subsection \<open>The script without line 15\<close>


subsection \<open>Reading a trace\<close>

text \<open>The output directory as the specification writes it.\<close>

definition out_dir :: "string \<Rightarrow> string \<Rightarrow> string" where
  "out_dir DATASET SPLIT = ''./artifacts/merged_weights_task_'' @ DATASET @ ''_'' @ SPLIT"

text \<open>The four steps of the orchestration, and the step a logged call belongs to.\<close>

datatype step = Merge | Save | Evaluate | WriteRecord

fun step_of :: "('p, 'n, 'r) event \<Rightarrow> step option" where
  "step_of (TaskCall ms b sg t) = Some Merge"
| "step_of (SavePretrained p d) = Some Save"
| "step_of (EvaluateCall p d) = Some Evaluate"
| "step_of (JsonDump r f) = Some WriteRecord"
| "step_of _ = None"

definition steps :: "(('p, 'n, 'r) event \<times> exn option) list \<Rightarrow> step list" where
  "steps tr = List.map_filter (\<lambda>x. step_of (fst x)) tr"

text \<open>The files opened for writing.\<close>

fun opened :: "('p, 'n, 'r) event \<Rightarrow> string option" where
  "opened (OpenCall f m) = (if m = ''w'' then Some f else None)"
| "opened _ = None"

definition files_written :: "(('p, 'n, 'r) event \<times> exn option) list \<Rightarrow> string list" where
  "files_written tr = List.map_filter (\<lambda>x. opened (fst x)) tr"

text \<open>A merge call whose base index is a position of its model list.\<close>

fun merge_config_ok :: "('p, 'n, 'r) event \<Rightarrow> bool" where
  "merge_config_ok (TaskCall ms b sg t) = (b = 0 \<and> b < length ms \<and> length ms = 6)"
| "merge_config_ok _ = True"

text \<open>
  The paths of a call: the weights go to the output directory, and the file opened and
  written is \<open>record.json\<close> inside it.
\<close>

fun paths_ok :: "string \<Rightarrow> string \<Rightarrow> ('p, 'n, 'r) event \<Rightarrow> bool" where
  "paths_ok D S (SavePretrained p d) = (d = out_dir D S)"
| "paths_ok D S (OpenCall f m) = (f = out_dir D S @ ''/record.json'')"
| "paths_ok D S (JsonDump r f) = (f = out_dir D S @ ''/record.json'')"
| "paths_ok D S _ = True"

text \<open>
  The calls after line 15, as far as the run gets: each list ends with the call named,
  whose outcome is \<open>out\<close>; every call before it returned.
\<close>

definition tr_merge ::
  "'n \<Rightarrow> string \<Rightarrow> exn option \<Rightarrow> (('p, 'n, 'r) event \<times> exn option) list" where
  "tr_merge t0 D out =
     [(TimeCall t0, None), (TaskCall (models D) 0 None ''text-classification'', out)]"

definition tr_save ::
  "'n::minus \<Rightarrow> 'n \<Rightarrow> 'p \<Rightarrow> string \<Rightarrow> string \<Rightarrow> exn option \<Rightarrow>
   (('p, 'n, 'r) event \<times> exn option) list" where
  "tr_save t0 t1 p D S out =
     tr_merge t0 D None @
     [(TimeCall t1, None), (PrintElapsed ''Merging completed. Time elapsed:'' (t1 - t0), None),
      (SavePretrained p (out_dir D S), out)]"

definition tr_import ::
  "'n::minus \<Rightarrow> 'n \<Rightarrow> 'p \<Rightarrow> string \<Rightarrow> string \<Rightarrow> exn option \<Rightarrow>
   (('p, 'n, 'r) event \<times> exn option) list" where
  "tr_import t0 t1 p D S out =
     tr_save t0 t1 p D S None @
     [(PrintMsg ''Evaluating the merged model'', None), (ImportEvaluate, out)]"

definition tr_evaluate ::
  "'n::minus \<Rightarrow> 'n \<Rightarrow> 'p \<Rightarrow> string \<Rightarrow> string \<Rightarrow> exn option \<Rightarrow>
   (('p, 'n, 'r) event \<times> exn option) list" where
  "tr_evaluate t0 t1 p D S out = tr_import t0 t1 p D S None @ [(EvaluateCall p D, out)]"

definition tr_open ::
  "'n::minus \<Rightarrow> 'n \<Rightarrow> 'p \<Rightarrow> 'r \<Rightarrow> string \<Rightarrow> string \<Rightarrow> exn option \<Rightarrow>
   (('p, 'n, 'r) event \<times> exn option) list" where
  "tr_open t0 t1 p res D S out =
     tr_evaluate t0 t1 p D S None @
     [(PrintRes res, None), (OpenCall (out_dir D S @ ''/record.json'') ''w'', out)]"

definition tr_dump ::
  "'n::minus \<Rightarrow> 'n \<Rightarrow> 'p \<Rightarrow> 'r \<Rightarrow> 'n pydict \<Rightarrow> string \<Rightarrow> string \<Rightarrow> exn option \<Rightarrow>
   (('p, 'n, 'r) event \<times> exn option) list" where
  "tr_dump t0 t1 p res acc D S out =
     tr_open t0 t1 p res D S None @
     [(JsonDump (record_dict D S (t1 - t0) acc) (out_dir D S @ ''/record.json''), out)]"

text \<open>A call with the numbers taken out of its arguments.\<close>

definition untimed :: "('p, 'n, 'r) event \<Rightarrow> ('p, unit, 'r) event" where
  "untimed ev = map_event id (\<lambda>_. ()) id ev"

subsection \<open>Deterministic stand-ins for the collaborators\<close>

text \<open>
  The world is a counter of clock ticks, one hundred to the second; the merge takes 123
  ticks and the evaluation reports an accuracy of 0.81.
\<close>

definition stub_env :: "(nat, string, rat, rat pydict) env" where
  "stub_env =
     \<lparr>pipeline = (\<lambda>task_type model device framework w. (Inr model, w + 1)),
      time_time = (\<lambda>w. of_nat w / 100),
      task = (\<lambda>ms base_index signs task_type w. (Inr ''merged'', w + 123)),
      save_pretrained = (\<lambda>p d w. (Inr (), w + 1)),
      import_evaluate = (\<lambda>w. (Inr (), w)),
      evaluate_glue_pipeline = (\<lambda>p d w. (Inr [(''accuracy'', PNum (81 / 100))], w + 1)),
      accuracy = (\<lambda>res. res),
      open_file = (\<lambda>f m w. (Inr (), w + 1)),
      json_dump = (\<lambda>r f w. (Inr (), w + 1))\<rparr>"

text \<open>The same, with a merge that raises, and with a pipeline constructor that raises.\<close>

definition merge_fails_env :: "(nat, string, rat, rat pydict) env" where
  "merge_fails_env =
     stub_env\<lparr>task := (\<lambda>ms base_index signs task_type w. (Inl ''merge failed'', w + 5))\<rparr>"

definition pipeline_fails_env :: "(nat, string, rat, rat pydict) env" where
  "pipeline_fails_env =
     stub_env\<lparr>pipeline := (\<lambda>task_type model device framework w. (Inl ''model not found'', w))\<rparr>"

text \<open>
  A pipeline constructor that leaves the world as it found it; and a merge that needs the
  base model fetched, which the constructor of \<open>stub_env\<close> does in its one tick.
\<close>

definition quiet_pipeline_env :: "(nat, string, rat, rat pydict) env" where
  "quiet_pipeline_env =
     stub_env\<lparr>pipeline := (\<lambda>task_type model device framework w. (Inr model, w))\<rparr>"

definition cold_cache_env :: "(nat, string, rat, rat pydict) env" where
  "cold_cache_env =
     stub_env\<lparr>task := (\<lambda>ms base_index signs task_type w.
                if w = 0 then (Inl ''base model not fetched'', w)
                else (Inr ''merged'', w + 123))\<rparr>"

section \<open>Properties\<close>

subsection \<open>Dictionaries\<close>

lemma map_of_spread: "map_of (spread d m) = map_of d ++ map_of (rev m)"
  unfolding spread_def
proof (induction m arbitrary: d)
  case Nil
  show ?case by simp
next
  case (Cons x m)
  obtain k v where x: "x = (k, v)" by (cases x)
  have "map_of (fold (\<lambda>(k, v). AList.update k v) m (AList.update k v d))
        = map_of (AList.update k v d) ++ map_of (rev m)"
    by (rule Cons.IH)
  then show ?case
    by (simp add: x update_conv' map_add_upd_left fun_eq_iff map_add_def split: option.splits)
qed

lemma keys_spread: "fst ` set (spread d m) = fst ` set d \<union> fst ` set m"
  unfolding spread_def
  by (induction m arbitrary: d) (auto simp: dom_update split: prod.splits)

lemma distinct_spread: "distinct (map fst d) \<Longrightarrow> distinct (map fst (spread d m))"
  unfolding spread_def
  by (induction m arbitrary: d) (auto simp: distinct_update split: prod.splits)

lemma map_of_rev_distinct: "distinct (map fst m) \<Longrightarrow> map_of (rev m) = map_of m"
  by (rule ext) (metis map_of_eq_None_iff map_of_is_SomeI not_Some_eq set_rev map_of_SomeD)

lemma size_item: "(k, v) \<in> set m \<Longrightarrow> size v < size (PDict m)"
  by (induction m) auto

lemma item_not_whole: "(k, v) \<in> set m \<Longrightarrow> v \<noteq> PDict m"
  using size_item by fastforce

lemma set_update: "set (AList.update k v al) \<subseteq> insert (k, v) (set al)"
  by (induction al) auto

lemma set_spread: "set (spread d m) \<subseteq> set d \<union> set m"
  unfolding spread_def
proof (induction m arbitrary: d)
  case Nil
  show ?case by simp
next
  case (Cons x m)
  obtain k v where x: "x = (k, v)" by (cases x)
  have "set (fold (\<lambda>(k, v). AList.update k v) m (AList.update k v d))
          \<subseteq> set (AList.update k v d) \<union> set m"
    by (rule Cons.IH)
  also have "\<dots> \<subseteq> insert (k, v) (set d) \<union> set m"
    using set_update[of k v d] by blast
  finally show ?case by (auto simp: x)
qed

lemma map_update:
  "map (map_prod id f) (AList.update k v al) = AList.update k (f v) (map (map_prod id f) al)"
  by (induction al) auto

lemma map_spread:
  "map (map_prod id (map_pyval g)) (spread d m)
     = spread (map (map_prod id (map_pyval g)) d) (map (map_prod id (map_pyval g)) m)"
  unfolding spread_def
  by (induction m arbitrary: d) (auto simp: map_update)

lemma untimed_record:
  "untimed (JsonDump (record_dict D S dt acc) f)
     = JsonDump (record_dict D S () (map (map_prod id (map_pyval (\<lambda>_. ()))) acc)) f"
  by (simp add: untimed_def record_dict_def map_spread)

lemma untimed_simps:
  "untimed (PipelineCall tt m dv fw) = PipelineCall tt m dv fw"
  "untimed (TimeCall t) = TimeCall ()"
  "untimed (TaskCall ms bi sg tt) = TaskCall ms bi sg tt"
  "untimed (PrintElapsed msg t) = PrintElapsed msg ()"
  "untimed (PrintMsg msg) = PrintMsg msg"
  "untimed (PrintRes r) = PrintRes r"
  "untimed (SavePretrained p d) = SavePretrained p d"
  "untimed ImportEvaluate = ImportEvaluate"
  "untimed (EvaluateCall p d) = EvaluateCall p d"
  "untimed (OpenCall f md) = OpenCall f md"
  by (simp_all add: untimed_def)

lemma map_of_record_dict:
  "map_of (record_dict D S dt acc) k =
     (case map_of (rev acc) k of
        Some v \<Rightarrow> Some v
      | None \<Rightarrow> map_of [(''method'', PStr ''task''), (''dataset'', PStr D), (''split'', PStr S),
                         (''directory'', PStr (out_dir D S)), (''time'', PNum dt)] k)"
  by (simp add: record_dict_def map_of_spread map_add_def out_dir_def split: option.split)

lemma map_of_rev_None: "k \<notin> fst ` set acc \<Longrightarrow> map_of (rev acc) k = None"
  by (simp add: map_of_eq_None_iff)

lemma map_of_rev_Some:
  "distinct (map fst acc) \<Longrightarrow> (k, v) \<in> set acc \<Longrightarrow> map_of (rev acc) k = Some v"
  by (simp add: map_of_rev_distinct)

subsection \<open>The shape of a run\<close>

lemmas stub_defs = stub_env_def merge_fails_env_def pipeline_fails_env_def
  quiet_pipeline_env_def cold_cache_env_def

lemmas run_defs = ilharco2023editing_def merge_and_record_def invoke_def emit_def
  read_clock_def finish_def start_def

lemma models_hd: "\<exists>ms. models D = ''google-bert/bert-base-uncased'' # ms"
  by (simp add: models_def)

lemma ilharco2023editing_cases:
  fixes E :: "('w, 'p, 'n::minus, 'r) env"
  obtains
    (pipeline_fails) e w1 where
      "pipeline E ''text-classification'' ''google-bert/bert-base-uncased'' ''cpu'' ''pt'' (world s)
         = (Inl e, w1)"
      "ilharco2023editing E D S s =
         (Inl e, \<lparr>world = w1,
                  trace = trace s @ [(PipelineCall ''text-classification''
                                        ''google-bert/bert-base-uncased'' ''cpu'' ''pt'', Some e)]\<rparr>)"
  | (pipeline_returns) p0 w1 where
      "pipeline E ''text-classification'' ''google-bert/bert-base-uncased'' ''cpu'' ''pt'' (world s)
         = (Inr p0, w1)"
      "ilharco2023editing E D S s =
         merge_and_record E D S (models D)
           \<lparr>world = w1,
            trace = trace s @ [(PipelineCall ''text-classification''
                                  ''google-bert/bert-base-uncased'' ''cpu'' ''pt'', None)]\<rparr>"
proof -
  obtain ms where ms: "models D = ''google-bert/bert-base-uncased'' # ms"
    using models_hd by blast
  obtain r1 w1 where p:
    "pipeline E ''text-classification'' ''google-bert/bert-base-uncased'' ''cpu'' ''pt'' (world s)
       = (r1, w1)"
    by (cases "pipeline E ''text-classification'' ''google-bert/bert-base-uncased'' ''cpu'' ''pt''
                 (world s)")
  show thesis
  proof (cases r1)
    case (Inl e)
    with p ms show thesis
      by (intro pipeline_fails[of e w1]) (simp_all add: ilharco2023editing_def invoke_def)
  next
    case (Inr p0)
    with p ms show thesis
      by (intro pipeline_returns[of p0 w1]) (simp_all add: ilharco2023editing_def invoke_def)
  qed
qed

lemma start_simps: "world (start w) = w" "trace (start w) = []"
  by (simp_all add: start_def)

lemmas tr_defs = tr_merge_def tr_save_def tr_import_def tr_evaluate_def tr_open_def tr_dump_def

lemma merge_and_record_cases:
  fixes E :: "('w, 'p, 'n::minus, 'r) env"
  obtains
    (merge_fails) e w2 where
      "task E (models D) 0 None ''text-classification'' (world s) = (Inl e, w2)"
      "merge_and_record E D S (models D) s =
         (Inl e, \<lparr>world = w2, trace = trace s @ tr_merge (time_time E (world s)) D (Some e)\<rparr>)"
  | (save_fails) p w2 e w3 where
      "task E (models D) 0 None ''text-classification'' (world s) = (Inr p, w2)"
      "save_pretrained E p (out_dir D S) w2 = (Inl e, w3)"
      "merge_and_record E D S (models D) s =
         (Inl e, \<lparr>world = w3,
                  trace = trace s @ tr_save (time_time E (world s)) (time_time E w2) p D S (Some e)\<rparr>)"
  | (import_fails) p w2 w3 e w4 where
      "task E (models D) 0 None ''text-classification'' (world s) = (Inr p, w2)"
      "save_pretrained E p (out_dir D S) w2 = (Inr (), w3)"
      "import_evaluate E w3 = (Inl e, w4)"
      "merge_and_record E D S (models D) s =
         (Inl e, \<lparr>world = w4,
                  trace = trace s @ tr_import (time_time E (world s)) (time_time E w2) p D S (Some e)\<rparr>)"
  | (evaluate_fails) p w2 w3 w4 e w5 where
      "task E (models D) 0 None ''text-classification'' (world s) = (Inr p, w2)"
      "save_pretrained E p (out_dir D S) w2 = (Inr (), w3)"
      "import_evaluate E w3 = (Inr (), w4)"
      "evaluate_glue_pipeline E p D w4 = (Inl e, w5)"
      "merge_and_record E D S (models D) s =
         (Inl e, \<lparr>world = w5,
                  trace = trace s @ tr_evaluate (time_time E (world s)) (time_time E w2) p D S (Some e)\<rparr>)"
  | (open_fails) p w2 w3 w4 res w5 e w6 where
      "task E (models D) 0 None ''text-classification'' (world s) = (Inr p, w2)"
      "save_pretrained E p (out_dir D S) w2 = (Inr (), w3)"
      "import_evaluate E w3 = (Inr (), w4)"
      "evaluate_glue_pipeline E p D w4 = (Inr res, w5)"
      "open_file E (out_dir D S @ ''/record.json'') ''w'' w5 = (Inl e, w6)"
      "merge_and_record E D S (models D) s =
         (Inl e, \<lparr>world = w6,
                  trace = trace s @ tr_open (time_time E (world s)) (time_time E w2) p res D S (Some e)\<rparr>)"
  | (dump_fails) p w2 w3 w4 res w5 w6 e w7 where
      "task E (models D) 0 None ''text-classification'' (world s) = (Inr p, w2)"
      "save_pretrained E p (out_dir D S) w2 = (Inr (), w3)"
      "import_evaluate E w3 = (Inr (), w4)"
      "evaluate_glue_pipeline E p D w4 = (Inr res, w5)"
      "open_file E (out_dir D S @ ''/record.json'') ''w'' w5 = (Inr (), w6)"
      "json_dump E (record_dict D S (time_time E w2 - time_time E (world s)) (accuracy E res))
         (out_dir D S @ ''/record.json'') w6 = (Inl e, w7)"
      "merge_and_record E D S (models D) s =
         (Inl e, \<lparr>world = w7,
                  trace = trace s @ tr_dump (time_time E (world s)) (time_time E w2) p res
                                      (accuracy E res) D S (Some e)\<rparr>)"
  | (completes) p w2 w3 w4 res w5 w6 w7 where
      "task E (models D) 0 None ''text-classification'' (world s) = (Inr p, w2)"
      "save_pretrained E p (out_dir D S) w2 = (Inr (), w3)"
      "import_evaluate E w3 = (Inr (), w4)"
      "evaluate_glue_pipeline E p D w4 = (Inr res, w5)"
      "open_file E (out_dir D S @ ''/record.json'') ''w'' w5 = (Inr (), w6)"
      "json_dump E (record_dict D S (time_time E w2 - time_time E (world s)) (accuracy E res))
         (out_dir D S @ ''/record.json'') w6 = (Inr (), w7)"
      "merge_and_record E D S (models D) s =
         (Inr (), \<lparr>world = w7,
                  trace = trace s @ tr_dump (time_time E (world s)) (time_time E w2) p res
                                      (accuracy E res) D S None\<rparr>)"
proof -
  obtain r2 w2 where m: "task E (models D) 0 None ''text-classification'' (world s) = (r2, w2)"
    by (cases "task E (models D) 0 None ''text-classification'' (world s)")
  show thesis
  proof (cases r2)
    case (Inl e)
    with m show thesis
      by (intro merge_fails[of e w2])
         (simp_all add: merge_and_record_def invoke_def read_clock_def tr_defs)
  next
    case r2: (Inr p)
    obtain r3 w3 where sv: "save_pretrained E p (out_dir D S) w2 = (r3, w3)"
      by (cases "save_pretrained E p (out_dir D S) w2")
    show thesis
    proof (cases r3)
      case (Inl e)
      with m r2 sv show thesis
        by (intro save_fails[of p w2 e w3])
           (simp_all add: merge_and_record_def invoke_def read_clock_def emit_def tr_defs out_dir_def)
    next
      case r3: (Inr u3)
      obtain r4 w4 where im: "import_evaluate E w3 = (r4, w4)"
        by (cases "import_evaluate E w3")
      show thesis
      proof (cases r4)
        case (Inl e)
        with m r2 sv r3 im show thesis
          by (intro import_fails[of p w2 w3 e w4])
             (simp_all add: merge_and_record_def invoke_def read_clock_def emit_def tr_defs out_dir_def)
      next
        case r4: (Inr u4)
        obtain r5 w5 where ev: "evaluate_glue_pipeline E p D w4 = (r5, w5)"
          by (cases "evaluate_glue_pipeline E p D w4")
        show thesis
        proof (cases r5)
          case (Inl e)
          with m r2 sv r3 im r4 ev show thesis
            by (intro evaluate_fails[of p w2 w3 w4 e w5])
               (simp_all add: merge_and_record_def invoke_def read_clock_def emit_def tr_defs out_dir_def)
        next
          case r5: (Inr res)
          obtain r6 w6 where op: "open_file E (out_dir D S @ ''/record.json'') ''w'' w5 = (r6, w6)"
            by (cases "open_file E (out_dir D S @ ''/record.json'') ''w'' w5")
          show thesis
          proof (cases r6)
            case (Inl e)
            with m r2 sv r3 im r4 ev r5 op show thesis
              by (intro open_fails[of p w2 w3 w4 res w5 e w6])
                 (simp_all add: merge_and_record_def invoke_def read_clock_def emit_def tr_defs out_dir_def)
          next
            case r6: (Inr u6)
            obtain r7 w7 where dp:
              "json_dump E (record_dict D S (time_time E w2 - time_time E (world s)) (accuracy E res))
                 (out_dir D S @ ''/record.json'') w6 = (r7, w7)"
              by (cases "json_dump E (record_dict D S (time_time E w2 - time_time E (world s)) (accuracy E res))
                 (out_dir D S @ ''/record.json'') w6")
            show thesis
            proof (cases r7)
              case (Inl e)
              with m r2 sv r3 im r4 ev r5 op r6 dp show thesis
                by (intro dump_fails[of p w2 w3 w4 res w5 w6 e w7])
                   (simp_all add: merge_and_record_def invoke_def read_clock_def emit_def finish_def tr_defs out_dir_def)
            next
              case (Inr u7)
              with m r2 sv r3 im r4 ev r5 op r6 dp show thesis
                by (intro completes[of p w2 w3 w4 res w5 w6 w7])
                   (simp_all add: merge_and_record_def invoke_def read_clock_def emit_def finish_def tr_defs out_dir_def)
            qed
          qed
        qed
      qed
    qed
  qed
qed

lemma ilharco2023editing_unfold:
  "ilharco2023editing E D S s =
     invoke (PipelineCall ''text-classification'' ''google-bert/bert-base-uncased'' ''cpu'' ''pt'')
            (pipeline E ''text-classification'' ''google-bert/bert-base-uncased'' ''cpu'' ''pt'')
            (\<lambda>pipe. merge_and_record E D S (models D)) s"
  using models_hd[of D] by (auto simp: ilharco2023editing_def)


lemma steps_simps:
  "steps [] = []"
  "steps (x # tr) = (case step_of (fst x) of None \<Rightarrow> steps tr | Some st \<Rightarrow> st # steps tr)"
  by (simp_all add: steps_def split: option.split)

lemma files_written_simps:
  "files_written [] = []"
  "files_written (x # tr) =
     (case opened (fst x) of None \<Rightarrow> files_written tr | Some f \<Rightarrow> f # files_written tr)"
  by (simp_all add: files_written_def split: option.split)

lemma clock_independent:
  fixes E :: "('w, 'p, 'n::minus, 'r) env"
  shows "map (\<lambda>x. untimed (fst x))
           (trace (snd (ilharco2023editing (E\<lparr>time_time := c\<rparr>) D S (start w))))
       = map (\<lambda>x. untimed (fst x)) (trace (snd (ilharco2023editing E D S (start w))))"
proof (cases rule: ilharco2023editing_cases[where E = E and s = "start w" and D = D and S = S])
  case (pipeline_fails e w1)
  then show ?thesis
    by (simp add: ilharco2023editing_unfold[of "E\<lparr>time_time := c\<rparr>"] invoke_def start_simps)
next
  case (pipeline_returns p0 w1)
  show ?thesis
    using pipeline_returns(1)
    by (cases rule: merge_and_record_cases[where E = E and D = D and S = S and
          s = "\<lparr>world = w1, trace = trace (start w) @
                 [(PipelineCall ''text-classification''
                     ''google-bert/bert-base-uncased'' ''cpu'' ''pt'', None)]\<rparr>"])
       (simp_all add: pipeline_returns(2) ilharco2023editing_unfold[of "E\<lparr>time_time := c\<rparr>"]
          merge_and_record_def invoke_def read_clock_def emit_def finish_def start_simps tr_defs
          out_dir_def untimed_simps untimed_record split: prod.split sum.split)
qed

lemma merge_duration_recorded:
  fixes E :: "('w, 'p, 'n::minus, 'r) env"
  assumes "pipeline E ''text-classification'' ''google-bert/bert-base-uncased'' ''cpu'' ''pt'' w
             = (Inr p0, w1)"
      and "task E (models D) 0 None ''text-classification'' w1 = (Inr p, w2)"
      and "save_pretrained E p (out_dir D S) w2 = (Inr (), w3)"
      and "import_evaluate E w3 = (Inr (), w4)"
      and "evaluate_glue_pipeline E p D w4 = (Inr res, w5)"
      and "open_file E (out_dir D S @ ''/record.json'') ''w'' w5 = (Inr (), w6)"
  shows "take 4 (map fst (trace (snd (ilharco2023editing E D S (start w)))))
           = [PipelineCall ''text-classification'' ''google-bert/bert-base-uncased'' ''cpu'' ''pt'',
              TimeCall (time_time E w1),
              TaskCall (models D) 0 None ''text-classification'',
              TimeCall (time_time E w2)]
       \<and> fst (last (trace (snd (ilharco2023editing E D S (start w)))))
           = JsonDump (record_dict D S (time_time E w2 - time_time E w1) (accuracy E res))
                      (out_dir D S @ ''/record.json'')"
  using assms
  by (simp add: ilharco2023editing_unfold merge_and_record_def invoke_def read_clock_def emit_def
        finish_def start_simps out_dir_def split: prod.split sum.split)

section \<open>The claims\<close>

subsection \<open>The record\<close>

text \<open>
  C1. The record that line 39 writes is one flat object. Its keys are the five fixed keys
  and the keys of the accuracy mapping, each once; every item of the accuracy mapping is
  found at top level under its own key; the mapping itself is not stored under
  \<open>accuracy\<close>; and when the metrics are scalars, as the specification has them, no value
  of the record is an object.
\<close>

theorem record_is_flat:
  "fst ` set (record_dict D S dt acc)
     = {''method'', ''dataset'', ''split'', ''directory'', ''time''} \<union> fst ` set acc
   \<and> distinct (map fst (record_dict D S dt acc))
   \<and> map_of (record_dict D S dt acc) ''accuracy'' \<noteq> Some (PDict acc)
   \<and> (distinct (map fst acc) \<longrightarrow>
        (\<forall>(k, v) \<in> set acc. map_of (record_dict D S dt acc) k = Some v))
   \<and> ((\<forall>(k, v) \<in> set acc. scalar v) \<longrightarrow>
        (\<forall>(k, v) \<in> set (record_dict D S dt acc). scalar v))"
proof (intro conjI impI)
  show "fst ` set (record_dict D S dt acc)
     = {''method'', ''dataset'', ''split'', ''directory'', ''time''} \<union> fst ` set acc"
    by (simp add: record_dict_def keys_spread)
  show "distinct (map fst (record_dict D S dt acc))"
    unfolding record_dict_def by (rule distinct_spread) simp
  show "map_of (record_dict D S dt acc) ''accuracy'' \<noteq> Some (PDict acc)"
  proof (cases "map_of (rev acc) ''accuracy''")
    case None
    then show ?thesis by (simp add: map_of_record_dict)
  next
    case (Some v)
    then have "(''accuracy'', v) \<in> set acc"
      using map_of_SomeD by fastforce
    then have "v \<noteq> PDict acc" by (rule item_not_whole)
    with Some show ?thesis by (simp add: map_of_record_dict)
  qed
  show "\<forall>(k, v) \<in> set acc. map_of (record_dict D S dt acc) k = Some v"
    if "distinct (map fst acc)"
    using that by (auto simp: map_of_record_dict map_of_rev_Some)
  show "\<forall>(k, v) \<in> set (record_dict D S dt acc). scalar v"
    if "\<forall>(k, v) \<in> set acc. scalar v"
    using that set_spread[of "[(''method'', PStr ''task''), (''dataset'', PStr D),
        (''split'', PStr S),
        (''directory'', PStr (''./artifacts/merged_weights_task_'' @ D @ ''_'' @ S)),
        (''time'', PNum dt)]" acc]
    by (auto simp: record_dict_def)
qed

text \<open>The example of the specification: six keys, the accuracy at top level.\<close>

theorem record_is_flat_witness:
  "distinct (map fst [(''accuracy'', PNum (81 / 100 :: rat))])
   \<and> list_all (\<lambda>(k, v). scalar v) [(''accuracy'', PNum (81 / 100 :: rat))]
   \<and> record_dict ''rte'' ''validation'' (123 / 100) [(''accuracy'', PNum (81 / 100 :: rat))]
     = [(''method'', PStr ''task''), (''dataset'', PStr ''rte''), (''split'', PStr ''validation''),
        (''directory'', PStr ''./artifacts/merged_weights_task_rte_validation''),
        (''time'', PNum (123 / 100)), (''accuracy'', PNum (81 / 100))]
   \<and> map_of (record_dict ''rte'' ''validation'' (123 / 100) [(''accuracy'', PNum (81 / 100 :: rat))])
        ''accuracy'' = Some (PNum (81 / 100))"
  using record_is_flat[of "''rte''" "''validation''" "123 / 100 :: rat"
          "[(''accuracy'', PNum (81 / 100))]"]
  by (simp add: record_dict_def spread_def)

text \<open>
  C2. A key of the accuracy mapping that is also a fixed field name takes the field over:
  the record holds the value of the accuracy mapping under it. (A Python mapping has each
  key once.)
\<close>

theorem accuracy_overwrites_fixed:
  assumes "k \<in> {''method'', ''dataset'', ''split'', ''directory'', ''time''}"
      and "distinct (map fst acc)"
      and "(k, v) \<in> set acc"
  shows "map_of (record_dict D S dt acc) k = Some v"
  using assms(2,3) by (simp add: map_of_record_dict map_of_rev_Some)

text \<open>A metric named \<open>method\<close> replaces the method name \<open>task\<close>.\<close>

theorem accuracy_overwrites_fixed_witness:
  "''method'' \<in> {''method'', ''dataset'', ''split'', ''directory'', ''time''}
   \<and> distinct (map fst [(''accuracy'', PNum (81 / 100 :: rat)), (''method'', PStr ''average'')])
   \<and> (''method'', PStr ''average'')
        \<in> set [(''accuracy'', PNum (81 / 100 :: rat)), (''method'', PStr ''average'')]
   \<and> map_of (record_dict ''rte'' ''validation'' (123 / 100)
                [(''accuracy'', PNum (81 / 100 :: rat)), (''method'', PStr ''average'')]) ''method''
      = Some (PStr ''average'')"
  using accuracy_overwrites_fixed[of "''method''"
          "[(''accuracy'', PNum (81 / 100 :: rat)), (''method'', PStr ''average'')]"
          "PStr ''average''" "''rte''" "''validation''" "123 / 100"]
  by simp

subsection \<open>The model lists\<close>

text \<open>
  C3, as stated, fails where the accuracy mapping has a key \<open>dataset\<close>: the record of a run
  on \<open>sst2\<close> whose evaluation reports a metric of that name does not name \<open>sst2\<close>.
\<close>

theorem dataset_label_counterexample:
  "map_of (record_dict ''sst2'' ''validation'' (123 / 100 :: rat) [(''dataset'', PStr ''rte'')])
     ''dataset'' \<noteq> Some (PStr ''sst2'')"
  by (simp add: record_dict_def spread_def)

text \<open>
  C3, amended. For every dataset name other than \<open>rte\<close>, the empty string included, the
  model list is the six SST2 identifiers, and the \<open>dataset\<close> field of the record is the
  name given, unless the accuracy mapping has a key \<open>dataset\<close> of its own.
\<close>

theorem fallback_models:
  assumes "D \<noteq> ''rte''"
  shows "models D =
           [''google-bert/bert-base-uncased'', ''aviator-neural/bert-base-uncased-sst2'',
            ''howey/bert-base-uncased-sst2'', ''yoshitomo-matsubara/bert-base-uncased-sst2'',
            ''ikevin98/bert-base-uncased-finetuned-sst2'',
            ''TehranNLP-org/bert-base-uncased-cls-sst2'']
         \<and> (''dataset'' \<notin> fst ` set acc \<longrightarrow>
              map_of (record_dict D S dt acc) ''dataset'' = Some (PStr D))"
  using assms by (simp add: models_def map_of_record_dict map_of_rev_None)

text \<open>The empty dataset name.\<close>

theorem fallback_models_witness:
  "'''' \<noteq> ''rte''
   \<and> ''dataset'' \<notin> fst ` set [(''accuracy'', PNum (81 / 100 :: rat))]
   \<and> models '''' =
           [''google-bert/bert-base-uncased'', ''aviator-neural/bert-base-uncased-sst2'',
            ''howey/bert-base-uncased-sst2'', ''yoshitomo-matsubara/bert-base-uncased-sst2'',
            ''ikevin98/bert-base-uncased-finetuned-sst2'',
            ''TehranNLP-org/bert-base-uncased-cls-sst2'']
   \<and> map_of (record_dict '''' ''validation'' (123 / 100) [(''accuracy'', PNum (81 / 100 :: rat))])
        ''dataset'' = Some (PStr '''')"
  using fallback_models[of "''''" "[(''accuracy'', PNum (81 / 100 :: rat))]" "''validation''"
          "123 / 100"]
  by simp

text \<open>
  C4. For \<open>rte\<close> the model list is the six RTE identifiers in order, its element 0 is
  \<open>google-bert/bert-base-uncased\<close>, and the first call of every run on \<open>rte\<close> constructs
  the initial pipeline from that element.
\<close>

theorem rte_models:
  fixes E :: "('w, 'p, 'n::minus, 'r) env"
  shows "models ''rte'' =
           [''google-bert/bert-base-uncased'', ''textattack/bert-base-uncased-RTE'',
            ''yoshitomo-matsubara/bert-base-uncased-rte'',
            ''Ruizhou/bert-base-uncased-finetuned-rte'', ''howey/bert-base-uncased-rte'',
            ''anirudh21/bert-base-uncased-finetuned-rte'']
         \<and> models ''rte'' ! 0 = ''google-bert/bert-base-uncased''
         \<and> fst (hd (trace (snd (ilharco2023editing E ''rte'' S (start w)))))
             = PipelineCall ''text-classification'' (models ''rte'' ! 0) ''cpu'' ''pt''"
proof -
  have "fst (hd (trace (snd (ilharco2023editing E ''rte'' S (start w)))))
          = PipelineCall ''text-classification'' ''google-bert/bert-base-uncased'' ''cpu'' ''pt''"
  proof (cases rule: ilharco2023editing_cases[where E = E and s = "start w" and D = "''rte''"
                       and S = S])
    case (pipeline_fails e w1)
    then show ?thesis by (simp add: start_simps)
  next
    case (pipeline_returns p0 w1)
    show ?thesis
      by (cases rule: merge_and_record_cases[where E = E and D = "''rte''" and S = S and
            s = "\<lparr>world = w1, trace = trace (start w) @
                   [(PipelineCall ''text-classification''
                       ''google-bert/bert-base-uncased'' ''cpu'' ''pt'', None)]\<rparr>"])
         (simp_all add: pipeline_returns start_simps)
  qed
  then show ?thesis by (simp add: models_def)
qed

text \<open>
  C9. The model list has six elements whatever the dataset name, so position 0 exists, and
  every merge call of every run is made with base index 0 and a list of six.
\<close>

theorem base_index_valid:
  fixes E :: "('w, 'p, 'n::minus, 'r) env"
  shows "length (models D) = 6
     \<and> 0 < length (models D)
     \<and> (\<forall>x \<in> set (trace (snd (ilharco2023editing E D S (start w)))). merge_config_ok (fst x))"
proof (intro conjI)
  show len: "length (models D) = 6" by (simp add: models_def)
  then show "0 < length (models D)" by simp
  show "\<forall>x \<in> set (trace (snd (ilharco2023editing E D S (start w)))). merge_config_ok (fst x)"
  proof (cases rule: ilharco2023editing_cases[where E = E and s = "start w" and D = D and S = S])
    case (pipeline_fails e w1)
    then show ?thesis by (simp add: start_simps)
  next
    case (pipeline_returns p0 w1)
    show ?thesis
      by (cases rule: merge_and_record_cases[where E = E and D = D and S = S and
            s = "\<lparr>world = w1, trace = trace (start w) @
                   [(PipelineCall ''text-classification''
                       ''google-bert/bert-base-uncased'' ''cpu'' ''pt'', None)]\<rparr>"])
         (simp_all add: pipeline_returns start_simps tr_defs len)
  qed
qed

text \<open>The run with the stand-ins makes the merge call, and that call is well formed.\<close>

theorem base_index_valid_witness:
  "(TaskCall (models ''rte'') 0 None ''text-classification'', None)
      \<in> set (trace (snd (ilharco2023editing stub_env ''rte'' ''validation'' (start 0))))
   \<and> merge_config_ok
        (TaskCall (models ''rte'') 0 None ''text-classification''
           :: (string, rat, rat pydict) event)
   \<and> length (models ''rte'') = 6"
  using base_index_valid[of "''rte''" stub_env "''validation''" 0]
  by (simp add: run_defs stub_defs models_def)

subsection \<open>The output directory\<close>

text \<open>
  C5, as stated, fails where the accuracy mapping has a key \<open>directory\<close>: the record then
  holds the value of that metric and not the path the weights were saved to.
\<close>

theorem directory_counterexample:
  "map_of (record_dict ''rte'' ''validation'' (123 / 100 :: rat)
             [(''directory'', PStr ''./elsewhere'')]) ''directory''
     \<noteq> Some (PStr ''./artifacts/merged_weights_task_rte_validation'')"
  by (simp add: record_dict_def spread_def)

text \<open>
  C5, amended. The output directory is \<open>./artifacts/merged_weights_task_<DATASET>_<SPLIT>\<close>,
  which is \<open>./artifacts/merged_weights_task_rte_validation\<close> for \<open>rte\<close> and \<open>validation\<close>.
  In every run the weights are saved to that path and the file opened and written is
  \<open>record.json\<close> inside it; the \<open>directory\<close> field of the record is that path too, unless
  the accuracy mapping has a key \<open>directory\<close> of its own.
\<close>

theorem output_paths:
  fixes E :: "('w, 'p, 'n::minus, 'r) env"
  shows "out_dir ''rte'' ''validation'' = ''./artifacts/merged_weights_task_rte_validation''
     \<and> (\<forall>x \<in> set (trace (snd (ilharco2023editing E D S (start w)))). paths_ok D S (fst x))
     \<and> (''directory'' \<notin> fst ` set acc \<longrightarrow>
          map_of (record_dict D S dt acc) ''directory'' = Some (PStr (out_dir D S)))"
proof (intro conjI impI)
  show "out_dir ''rte'' ''validation'' = ''./artifacts/merged_weights_task_rte_validation''"
    by (simp add: out_dir_def)
  show "\<forall>x \<in> set (trace (snd (ilharco2023editing E D S (start w)))). paths_ok D S (fst x)"
  proof (cases rule: ilharco2023editing_cases[where E = E and s = "start w" and D = D and S = S])
    case (pipeline_fails e w1)
    then show ?thesis by (simp add: start_simps)
  next
    case (pipeline_returns p0 w1)
    show ?thesis
      by (cases rule: merge_and_record_cases[where E = E and D = D and S = S and
            s = "\<lparr>world = w1, trace = trace (start w) @
                   [(PipelineCall ''text-classification''
                       ''google-bert/bert-base-uncased'' ''cpu'' ''pt'', None)]\<rparr>"])
         (simp_all add: pipeline_returns start_simps tr_defs)
  qed
  show "map_of (record_dict D S dt acc) ''directory'' = Some (PStr (out_dir D S))"
    if "''directory'' \<notin> fst ` set acc"
    using that by (simp add: map_of_record_dict map_of_rev_None)
qed

text \<open>The run with the stand-ins: one save and one file, both under the output directory.\<close>

theorem output_paths_witness:
  "''directory'' \<notin> fst ` set [(''accuracy'', PNum (81 / 100 :: rat))]
   \<and> map (\<lambda>x. fst x) (filter (\<lambda>x. step_of (fst x) = Some Save \<or> opened (fst x) \<noteq> None)
        (trace (snd (ilharco2023editing stub_env ''rte'' ''validation'' (start 0)))))
       = [SavePretrained ''merged'' ''./artifacts/merged_weights_task_rte_validation'',
          OpenCall ''./artifacts/merged_weights_task_rte_validation/record.json'' ''w'']
   \<and> map_of (record_dict ''rte'' ''validation'' (123 / 100) [(''accuracy'', PNum (81 / 100 :: rat))])
        ''directory'' = Some (PStr ''./artifacts/merged_weights_task_rte_validation'')"
  using output_paths[of stub_env "''rte''" "''validation''" 0
          "[(''accuracy'', PNum (81 / 100 :: rat))]" "123 / 100"]
  by (simp add: run_defs stub_defs models_def out_dir_def)

subsection \<open>The elapsed time\<close>

text \<open>
  C6, as stated, fails where the accuracy mapping has a key \<open>time\<close>: the record then holds
  the value of that metric and not the duration of the merge.
\<close>

theorem time_field_counterexample:
  "map_of (record_dict ''rte'' ''validation'' (123 / 100 :: rat) [(''time'', PNum 7)]) ''time''
     \<noteq> Some (PNum (123 / 100))"
  by (simp add: record_dict_def spread_def)

text \<open>
  C6, amended. Whatever the clock returns, the script makes the same calls in the same
  order, with the same arguments apart from the numbers: no decision depends on the
  readings. In a run that gets as far as writing the record, the clock is read right before
  and right after the merge call (after the initial pipeline is constructed, before the
  weights are saved), and the \<open>time\<close> field of the record written is the second reading
  minus the first, unless the accuracy mapping has a key \<open>time\<close> of its own.
\<close>

theorem time_field:
  fixes E :: "('w, 'p, 'n::minus, 'r) env"
  shows "map (\<lambda>x. untimed (fst x))
           (trace (snd (ilharco2023editing (E\<lparr>time_time := c\<rparr>) D S (start w))))
         = map (\<lambda>x. untimed (fst x)) (trace (snd (ilharco2023editing E D S (start w))))
     \<and> (pipeline E ''text-classification'' ''google-bert/bert-base-uncased'' ''cpu'' ''pt'' w
           = (Inr p0, w1) \<longrightarrow>
        task E (models D) 0 None ''text-classification'' w1 = (Inr p, w2) \<longrightarrow>
        save_pretrained E p (out_dir D S) w2 = (Inr (), w3) \<longrightarrow>
        import_evaluate E w3 = (Inr (), w4) \<longrightarrow>
        evaluate_glue_pipeline E p D w4 = (Inr res, w5) \<longrightarrow>
        open_file E (out_dir D S @ ''/record.json'') ''w'' w5 = (Inr (), w6) \<longrightarrow>
        ''time'' \<notin> fst ` set (accuracy E res) \<longrightarrow>
          take 4 (map fst (trace (snd (ilharco2023editing E D S (start w)))))
            = [PipelineCall ''text-classification'' ''google-bert/bert-base-uncased'' ''cpu'' ''pt'',
               TimeCall (time_time E w1),
               TaskCall (models D) 0 None ''text-classification'',
               TimeCall (time_time E w2)]
          \<and> fst (last (trace (snd (ilharco2023editing E D S (start w)))))
            = JsonDump (record_dict D S (time_time E w2 - time_time E w1) (accuracy E res))
                       (out_dir D S @ ''/record.json'')
          \<and> map_of (record_dict D S (time_time E w2 - time_time E w1) (accuracy E res)) ''time''
            = Some (PNum (time_time E w2 - time_time E w1)))"
proof (intro conjI impI)
  show "map (\<lambda>x. untimed (fst x))
           (trace (snd (ilharco2023editing (E\<lparr>time_time := c\<rparr>) D S (start w))))
         = map (\<lambda>x. untimed (fst x)) (trace (snd (ilharco2023editing E D S (start w))))"
    by (rule clock_independent)
next
  assume a: "pipeline E ''text-classification'' ''google-bert/bert-base-uncased'' ''cpu'' ''pt'' w
           = (Inr p0, w1)"
        "task E (models D) 0 None ''text-classification'' w1 = (Inr p, w2)"
        "save_pretrained E p (out_dir D S) w2 = (Inr (), w3)"
        "import_evaluate E w3 = (Inr (), w4)"
        "evaluate_glue_pipeline E p D w4 = (Inr res, w5)"
        "open_file E (out_dir D S @ ''/record.json'') ''w'' w5 = (Inr (), w6)"
  assume t: "''time'' \<notin> fst ` set (accuracy E res)"
  show "take 4 (map fst (trace (snd (ilharco2023editing E D S (start w)))))
            = [PipelineCall ''text-classification'' ''google-bert/bert-base-uncased'' ''cpu'' ''pt'',
               TimeCall (time_time E w1),
               TaskCall (models D) 0 None ''text-classification'',
               TimeCall (time_time E w2)]"
    using merge_duration_recorded[OF a] by simp
  show "fst (last (trace (snd (ilharco2023editing E D S (start w)))))
            = JsonDump (record_dict D S (time_time E w2 - time_time E w1) (accuracy E res))
                       (out_dir D S @ ''/record.json'')"
    using merge_duration_recorded[OF a] by simp
  show "map_of (record_dict D S (time_time E w2 - time_time E w1) (accuracy E res)) ''time''
            = Some (PNum (time_time E w2 - time_time E w1))"
    using t by (simp add: map_of_record_dict map_of_rev_None)
qed

text \<open>
  The run with the stand-ins: the merge starts at tick 1 and ends at tick 124, and the
  record holds 1.23 seconds.
\<close>

theorem time_field_witness:
  "pipeline stub_env ''text-classification'' ''google-bert/bert-base-uncased'' ''cpu'' ''pt'' 0
     = (Inr ''google-bert/bert-base-uncased'', 1)
   \<and> task stub_env (models ''rte'') 0 None ''text-classification'' 1 = (Inr ''merged'', 124)
   \<and> save_pretrained stub_env ''merged'' (out_dir ''rte'' ''validation'') 124 = (Inr (), 125)
   \<and> import_evaluate stub_env 125 = (Inr (), 125)
   \<and> evaluate_glue_pipeline stub_env ''merged'' ''rte'' 125
       = (Inr [(''accuracy'', PNum (81 / 100))], 126)
   \<and> open_file stub_env (out_dir ''rte'' ''validation'' @ ''/record.json'') ''w'' 126 = (Inr (), 127)
   \<and> ''time'' \<notin> fst ` set (accuracy stub_env [(''accuracy'', PNum (81 / 100))])
   \<and> map_of (record_dict ''rte'' ''validation'' (time_time stub_env 124 - time_time stub_env 1)
                (accuracy stub_env [(''accuracy'', PNum (81 / 100))])) ''time''
       = Some (PNum (123 / 100))
   \<and> fst (last (trace (snd (ilharco2023editing stub_env ''rte'' ''validation'' (start 0)))))
       = JsonDump (record_dict ''rte'' ''validation'' (123 / 100) [(''accuracy'', PNum (81 / 100))])
                  ''./artifacts/merged_weights_task_rte_validation/record.json''"
  using time_field[of "\<lambda>w. 0" stub_env "''rte''" "''validation''" 0
          "''google-bert/bert-base-uncased''" 1 "''merged''" 124 125 125
          "[(''accuracy'', PNum (81 / 100))]" 126 127]
  by (simp add: stub_defs out_dir_def)

subsection \<open>The order of the steps and the failures\<close>

text \<open>
  C7, as stated, fails for a run in which a step raises: when the merge fails, the weights
  are not saved at all.
\<close>

theorem steps_counterexample:
  "count_list
     (steps (trace (snd (ilharco2023editing merge_fails_env ''rte'' ''validation'' (start 0)))))
     Save \<noteq> 1"
  by (simp add: run_defs stub_defs models_def steps_simps)

text \<open>
  C7, amended. Every run takes the steps merge, save weights, evaluate, write the record in
  that order and as far as it gets: the steps taken are an initial part of that list,
  whatever the dataset name and whatever the collaborators return. A run in which no call
  raises takes all four, each once: it makes one call to save the weights, and it opens one
  file for writing, \<open>record.json\<close> in the output directory.
\<close>

theorem steps_in_order:
  fixes E :: "('w, 'p, 'n::minus, 'r) env"
  shows "prefix (steps (trace (snd (ilharco2023editing E D S (start w)))))
                [Merge, Save, Evaluate, WriteRecord]
         \<and> (fst (ilharco2023editing E D S (start w)) = Inr () \<longrightarrow>
              steps (trace (snd (ilharco2023editing E D S (start w))))
                = [Merge, Save, Evaluate, WriteRecord]
              \<and> files_written (trace (snd (ilharco2023editing E D S (start w))))
                = [out_dir D S @ ''/record.json''])"
proof (cases rule: ilharco2023editing_cases[where E = E and s = "start w" and D = D and S = S])
  case (pipeline_fails e w1)
  then show ?thesis by (simp add: start_simps steps_simps)
next
  case (pipeline_returns p0 w1)
  show ?thesis
    by (cases rule: merge_and_record_cases[where E = E and D = D and S = S and
          s = "\<lparr>world = w1, trace = trace (start w) @
                 [(PipelineCall ''text-classification''
                     ''google-bert/bert-base-uncased'' ''cpu'' ''pt'', None)]\<rparr>"])
       (simp_all add: pipeline_returns start_simps tr_defs steps_simps files_written_simps)
qed

text \<open>The run with the stand-ins completes: four steps, one save, one file.\<close>

theorem steps_in_order_witness:
  "fst (ilharco2023editing stub_env ''rte'' ''validation'' (start 0)) = Inr ()
   \<and> steps (trace (snd (ilharco2023editing stub_env ''rte'' ''validation'' (start 0))))
       = [Merge, Save, Evaluate, WriteRecord]
   \<and> count_list
       (steps (trace (snd (ilharco2023editing stub_env ''rte'' ''validation'' (start 0))))) Save
       = 1
   \<and> files_written (trace (snd (ilharco2023editing stub_env ''rte'' ''validation'' (start 0))))
       = [''./artifacts/merged_weights_task_rte_validation/record.json'']"
  using steps_in_order[of stub_env "''rte''" "''validation''" 0]
  by (simp add: run_defs stub_defs models_def out_dir_def)

text \<open>
  C8. The script handles no failure. In every run, every call but the last returned, and
  the outcome of the run is the outcome of its last call: when a call raises, no further
  call is made (none is tried again), and the exception is the result of the run.
\<close>

theorem failure_propagates:
  fixes E :: "('w, 'p, 'n::minus, 'r) env"
  shows "trace (snd (ilharco2023editing E D S (start w))) \<noteq> []
     \<and> (\<forall>x \<in> set (butlast (trace (snd (ilharco2023editing E D S (start w))))). snd x = None)
     \<and> fst (ilharco2023editing E D S (start w))
         = (case snd (last (trace (snd (ilharco2023editing E D S (start w))))) of
              None \<Rightarrow> Inr () | Some e \<Rightarrow> Inl e)"
proof (cases rule: ilharco2023editing_cases[where E = E and s = "start w" and D = D and S = S])
  case (pipeline_fails e w1)
  then show ?thesis by (simp add: start_simps)
next
  case (pipeline_returns p0 w1)
  show ?thesis
    by (cases rule: merge_and_record_cases[where E = E and D = D and S = S and
          s = "\<lparr>world = w1, trace = trace (start w) @
                 [(PipelineCall ''text-classification''
                     ''google-bert/bert-base-uncased'' ''cpu'' ''pt'', None)]\<rparr>"])
       (simp_all add: pipeline_returns start_simps tr_defs)
qed

text \<open>A merge that raises: the run ends with its exception, at the merge call.\<close>

theorem failure_propagates_witness:
  "fst (ilharco2023editing merge_fails_env ''rte'' ''validation'' (start 0))
     = Inl ''merge failed''
   \<and> map (\<lambda>x. (step_of (fst x), snd x))
        (trace (snd (ilharco2023editing merge_fails_env ''rte'' ''validation'' (start 0))))
       = [(None, None), (None, None), (Some Merge, Some ''merge failed'')]"
  using failure_propagates[of merge_fails_env "''rte''" "''validation''" 0]
  by (simp add: run_defs stub_defs models_def)

subsection \<open>The initial pipeline\<close>






end
